theory Spec2Isabelle
  imports Main "HOL-Library.Sublist"
begin

section \<open>Community roles and their registry\<close>

text \<open>
  A shallow embedding of \<^verbatim>\<open>invenio_communities/roles.py\<close>: the frozen dataclass
  \<^verbatim>\<open>Role\<close> and the class \<^verbatim>\<open>RoleRegistry\<close>.

  Values are taken at the types the dataclass annotates: \<^verbatim>\<open>str\<close> for the name, the
  title and the description, a \<^verbatim>\<open>list\<close> of role names for \<^verbatim>\<open>can_manage_roles\<close>,
  \<^verbatim>\<open>bool\<close> for \<^verbatim>\<open>is_owner\<close>. Exceptions are values of the type \<open>error\<close>; a function
  that can raise returns \<open>error + 'a\<close>, with \<open>Inl\<close> for the exception. The
  \<^verbatim>\<open>assert\<close> statements are modelled as executed (the interpreter's default).
\<close>

subsection \<open>Exceptions\<close>

datatype error =
    TypeError
  | AssertionError string
  | KeyError string

subsection \<open>Dictionaries\<close>

text \<open>
  A Python \<^verbatim>\<open>dict\<close> keeps its items in insertion order and its keys are unique: it
  is an association list with distinct keys. \<open>dict_set\<close> is \<^verbatim>\<open>d[k] = v\<close>: an
  existing key keeps its position and gets the new value, a new key goes to the end.
\<close>

type_synonym ('k, 'v) dict = "('k \<times> 'v) list"

fun dict_set :: "('k, 'v) dict \<Rightarrow> 'k \<Rightarrow> 'v \<Rightarrow> ('k, 'v) dict" where
  "dict_set [] k v = [(k, v)]"
| "dict_set ((k', v') # kvs) k v =
     (if k' = k then (k, v) # kvs else (k', v') # dict_set kvs k v)"

definition dict_contains :: "('k, 'v) dict \<Rightarrow> 'k \<Rightarrow> bool" where
  "dict_contains d k = (k \<in> set (map fst d))"

definition dict_lookup :: "('k, 'v) dict \<Rightarrow> 'k \<Rightarrow> 'v option" where
  "dict_lookup d k = map_of d k"

definition dict_values :: "('k, 'v) dict \<Rightarrow> 'v list" where
  "dict_values d = map snd d"

text \<open>\<^verbatim>\<open>x in xs\<close> on a list: a scan from the left that compares with \<^verbatim>\<open>==\<close>.\<close>

fun list_contains :: "'a list \<Rightarrow> 'a \<Rightarrow> bool" where
  "list_contains [] x = False"
| "list_contains (y # ys) x = (if y = x then True else list_contains ys x)"

subsection \<open>The dataclass \<^verbatim>\<open>Role\<close>\<close>

record Role =
  name :: string
  title :: string
  description :: string
  can_manage_roles :: "string list"
  is_owner :: bool

definition can_manage :: "Role \<Rightarrow> string \<Rightarrow> bool" where
  "can_manage self role_name = list_contains (can_manage_roles self) role_name"

text \<open>
  \<^verbatim>\<open>__hash__\<close> is the hash of the name. The hash of a \<^verbatim>\<open>str\<close> is the interpreter's
  (seeded per process), so it is the parameter \<open>str_hash\<close>.
\<close>

definition Role_hash :: "(string \<Rightarrow> int) \<Rightarrow> Role \<Rightarrow> int" where
  "Role_hash str_hash self = str_hash (name self)"

text \<open>
  The class defines no \<^verbatim>\<open>__eq__\<close>, so \<^verbatim>\<open>@dataclass(frozen=True)\<close> (with its default
  \<^verbatim>\<open>eq=True\<close>) generates one: two instances of the class are equal when the tuples of
  their fields, in declaration order, are equal. The decorator leaves a \<^verbatim>\<open>__hash__\<close>
  that the class defines itself in place.
\<close>

definition Role_eq :: "Role \<Rightarrow> Role \<Rightarrow> bool" where
  "Role_eq self other =
     ((name self, title self, description self, can_manage_roles self, is_owner self)
      = (name other, title other, description other, can_manage_roles other, is_owner other))"

subsection \<open>Role definitions\<close>

text \<open>
  One value of the mapping \<^verbatim>\<open>roles_definitions\<close>: the dict \<^verbatim>\<open>data\<close> that
  \<^verbatim>\<open>Role(name=name, **data)\<close> unpacks into keyword arguments. Under each of the keys
  \<^verbatim>\<open>title\<close>, \<^verbatim>\<open>description\<close>, \<^verbatim>\<open>can_manage_roles\<close>, \<^verbatim>\<open>is_owner\<close> it has either
  nothing (\<open>None\<close>) or a value of the field's type; \<open>data_other\<close> are the items
  it has under any other key, whose values are strings, lists of names or booleans.
\<close>

datatype py_value =
    Str string
  | Names "string list"
  | Bool bool

record role_data =
  data_title :: "string option"
  data_description :: "string option"
  data_can_manage_roles :: "string list option"
  data_is_owner :: "bool option"
  data_other :: "(string, py_value) dict"

definition data_keys :: "role_data \<Rightarrow> string list" where
  "data_keys d =
     (case data_title d of None \<Rightarrow> [] | Some _ \<Rightarrow> [''title'']) @
     (case data_description d of None \<Rightarrow> [] | Some _ \<Rightarrow> [''description'']) @
     (case data_can_manage_roles d of None \<Rightarrow> [] | Some _ \<Rightarrow> [''can_manage_roles'']) @
     (case data_is_owner d of None \<Rightarrow> [] | Some _ \<Rightarrow> [''is_owner'']) @
     map fst (data_other d)"

text \<open>
  The parameters of the generated \<^verbatim>\<open>__init__\<close> that \<^verbatim>\<open>**data\<close> may bind:
  every field but \<^verbatim>\<open>name\<close>, which the call binds itself.
\<close>

definition Role_keywords :: "string list" where
  "Role_keywords = [''title'', ''description'', ''can_manage_roles'', ''is_owner'']"

text \<open>
  \<^verbatim>\<open>Role(name=name, **data)\<close>. A key \<^verbatim>\<open>name\<close> in \<^verbatim>\<open>data\<close> gives the parameter a
  second value, any other key outside the fields is an unexpected keyword argument:
  both raise \<^verbatim>\<open>TypeError\<close> (\<open>keywords_ok\<close> is the check of the keys). Otherwise the
  instance has the fields of \<open>Role_fields\<close>: the name, and each other field from
  its key, or its default without one.
\<close>

definition Role_fields :: "string \<Rightarrow> role_data \<Rightarrow> Role" where
  "Role_fields n d =
     \<lparr> name = n,
       title = (case data_title d of None \<Rightarrow> [] | Some t \<Rightarrow> t),
       description = (case data_description d of None \<Rightarrow> [] | Some t \<Rightarrow> t),
       can_manage_roles = (case data_can_manage_roles d of None \<Rightarrow> [] | Some l \<Rightarrow> l),
       is_owner = (case data_is_owner d of None \<Rightarrow> False | Some b \<Rightarrow> b) \<rparr>"

definition keywords_ok :: "role_data \<Rightarrow> bool" where
  "keywords_ok d = list_all (\<lambda>k. list_contains Role_keywords k) (data_keys d)"

definition Role_init :: "string \<Rightarrow> role_data \<Rightarrow> error + Role" where
  "Role_init n d = (if keywords_ok d then Inr (Role_fields n d) else Inl TypeError)"

subsection \<open>The class \<^verbatim>\<open>RoleRegistry\<close>\<close>

record RoleRegistry =
  priv_roles :: "(string, Role) dict"
  priv_owner :: "Role option"

text \<open>
  The dict comprehension of \<^verbatim>\<open>__init__\<close>: the items of \<^verbatim>\<open>roles_definitions\<close> in
  order, each role stored under its name; the first \<^verbatim>\<open>Role(...)\<close> that raises ends it.
\<close>

fun build_roles :: "(string, role_data) dict \<Rightarrow> (string, Role) dict \<Rightarrow> error + (string, Role) dict" where
  "build_roles [] acc = Inr acc"
| "build_roles ((n, d) # items) acc =
     (case Role_init n d of
        Inl e \<Rightarrow> Inl e
      | Inr r \<Rightarrow> build_roles items (dict_set acc n r))"

text \<open>
  The loop over \<^verbatim>\<open>self._roles.values()\<close>; the second argument is \<^verbatim>\<open>self._owner\<close>.
\<close>

fun scan_owner :: "Role list \<Rightarrow> Role option \<Rightarrow> error + Role option" where
  "scan_owner [] owner = Inr owner"
| "scan_owner (r # rs) owner =
     (if is_owner r
      then (case owner of
              None \<Rightarrow> scan_owner rs (Some r)
            | Some _ \<Rightarrow> Inl (AssertionError ''Only one role be defined as owner.''))
      else scan_owner rs owner)"

definition RoleRegistry_init :: "(string, role_data) dict \<Rightarrow> error + RoleRegistry" where
  "RoleRegistry_init roles_definitions =
     (case build_roles roles_definitions [] of
        Inl e \<Rightarrow> Inl e
      | Inr rs \<Rightarrow>
          (case scan_owner (dict_values rs) None of
             Inl e \<Rightarrow> Inl e
           | Inr None \<Rightarrow> Inl (AssertionError ''One role must be defined as owner.'')
           | Inr (Some r) \<Rightarrow> Inr \<lparr> priv_roles = rs, priv_owner = Some r \<rparr>))"

definition contains :: "RoleRegistry \<Rightarrow> string \<Rightarrow> bool" where
  "contains self key = dict_contains (priv_roles self) key"

definition getitem :: "RoleRegistry \<Rightarrow> string \<Rightarrow> error + Role" where
  "getitem self key =
     (case dict_lookup (priv_roles self) key of
        None \<Rightarrow> Inl (KeyError key)
      | Some r \<Rightarrow> Inr r)"

definition roles :: "RoleRegistry \<Rightarrow> Role list" where
  "roles self = dict_values (priv_roles self)"

definition owner_role :: "RoleRegistry \<Rightarrow> Role option" where
  "owner_role self = priv_owner self"

text \<open>The loop of \<^verbatim>\<open>manager_roles\<close>; the third argument is \<^verbatim>\<open>allowed_roles\<close>.\<close>

fun manager_roles_loop :: "Role list \<Rightarrow> string \<Rightarrow> Role list \<Rightarrow> Role list" where
  "manager_roles_loop [] role_name allowed_roles = allowed_roles"
| "manager_roles_loop (role # rest) role_name allowed_roles =
     (if can_manage role role_name
      then manager_roles_loop rest role_name (allowed_roles @ [role])
      else manager_roles_loop rest role_name allowed_roles)"

definition manager_roles :: "RoleRegistry \<Rightarrow> string \<Rightarrow> Role list" where
  "manager_roles self role_name = manager_roles_loop (roles self) role_name []"

text \<open>The entries of \<^verbatim>\<open>roles_definitions\<close> whose \<^verbatim>\<open>is_owner\<close> is \<^verbatim>\<open>True\<close>.\<close>

definition owner_entries :: "(string, role_data) dict \<Rightarrow> (string \<times> role_data) list" where
  "owner_entries defs = filter (\<lambda>(n, d). data_is_owner d = Some True) defs"

subsection \<open>Concrete role definitions\<close>

text \<open>The empty dict \<^verbatim>\<open>{}\<close> as a role definition.\<close>

definition no_data :: role_data where
  "no_data = \<lparr> data_title = None, data_description = None, data_can_manage_roles = None,
               data_is_owner = None, data_other = [] \<rparr>"

text \<open>
  The four roles reader, curator, manager and owner, the lists of the roles they manage
  under the key \<^verbatim>\<open>can_manage_roles\<close>.
\<close>

definition four_roles :: "(string, role_data) dict" where
  "four_roles =
     [(''reader'', no_data),
      (''curator'', no_data\<lparr>data_can_manage_roles := Some [''reader'']\<rparr>),
      (''manager'', no_data\<lparr>data_can_manage_roles := Some [''reader'', ''curator'']\<rparr>),
      (''owner'', no_data\<lparr>data_can_manage_roles := Some [''reader'', ''curator'', ''manager'', ''owner''],
                           data_is_owner := Some True\<rparr>)]"

text \<open>The same four roles, the lists under the key \<^verbatim>\<open>can_manage\<close>.\<close>

definition four_roles_can_manage :: "(string, role_data) dict" where
  "four_roles_can_manage =
     [(''reader'', no_data),
      (''curator'', no_data\<lparr>data_other := [(''can_manage'', Names [''reader''])]\<rparr>),
      (''manager'', no_data\<lparr>data_other := [(''can_manage'', Names [''reader'', ''curator''])]\<rparr>),
      (''owner'', no_data\<lparr>data_is_owner := Some True,
                           data_other := [(''can_manage'',
                             Names [''reader'', ''curator'', ''manager'', ''owner''])]\<rparr>)]"

text \<open>A single owner role whose list is under the key \<^verbatim>\<open>can_manage\<close>.\<close>

definition owner_can_manage :: "(string, role_data) dict" where
  "owner_can_manage =
     [(''owner'', no_data\<lparr>data_is_owner := Some True,
                           data_other := [(''can_manage'', Names [''owner''])]\<rparr>)]"

text \<open>
  An owner that manages a role \<^verbatim>\<open>ghost\<close> that is not defined; in the second
  mapping the definition of \<^verbatim>\<open>member\<close> has the key \<^verbatim>\<open>can_manage\<close>.
\<close>

definition owner_ghost :: "(string, role_data) dict" where
  "owner_ghost =
     [(''member'', no_data),
      (''owner'', no_data\<lparr>data_can_manage_roles := Some [''member'', ''ghost''],
                           data_is_owner := Some True\<rparr>)]"

definition owner_ghost_can_manage :: "(string, role_data) dict" where
  "owner_ghost_can_manage =
     [(''member'', no_data\<lparr>data_other := [(''can_manage'', Names [])]\<rparr>),
      (''owner'', no_data\<lparr>data_can_manage_roles := Some [''member'', ''ghost''],
                           data_is_owner := Some True\<rparr>)]"

text \<open>Definitions without an owner, and with two.\<close>

definition no_owner :: "(string, role_data) dict" where
  "no_owner = [(''reader'', no_data), (''curator'', no_data\<lparr>data_is_owner := Some False\<rparr>)]"

definition two_owners :: "(string, role_data) dict" where
  "two_owners =
     [(''reader'', no_data),
      (''owner'', no_data\<lparr>data_is_owner := Some True\<rparr>),
      (''admin'', no_data\<lparr>data_is_owner := Some True\<rparr>)]"

text \<open>Two roles of one name that differ in their title.\<close>

definition reader_a :: Role where
  "reader_a = \<lparr> name = ''reader'', title = ''Reader'', description = [],
                 can_manage_roles = [], is_owner = False \<rparr>"

definition reader_b :: Role where
  "reader_b = \<lparr> name = ''reader'', title = ''Member'', description = [],
                 can_manage_roles = [], is_owner = False \<rparr>"

section \<open>Properties\<close>

subsection \<open>Lists and dictionaries\<close>

lemma list_contains_set: "list_contains xs x \<longleftrightarrow> x \<in> set xs"
  by (induction xs) auto

lemma dict_set_new: "k \<notin> set (map fst d) \<Longrightarrow> dict_set d k v = d @ [(k, v)]"
  by (induction d) auto

subsection \<open>Building the roles\<close>

lemma keywords_ok_subset: "keywords_ok d \<longleftrightarrow> set (data_keys d) \<subseteq> set Role_keywords"
  by (auto simp: keywords_ok_def list_all_iff list_contains_set)

lemma Role_init_TypeError: "\<not> keywords_ok d \<Longrightarrow> Role_init n d = Inl TypeError"
  by (simp add: Role_init_def)

lemma Role_init_Inr: "keywords_ok d \<Longrightarrow> Role_init n d = Inr (Role_fields n d)"
  by (simp add: Role_init_def)

text \<open>One definition with a key that is no field makes the comprehension raise.\<close>

lemma build_roles_TypeError:
  "\<not> list_all (\<lambda>(n, d). keywords_ok d) items \<Longrightarrow> build_roles items acc = Inl TypeError"
proof (induction items arbitrary: acc)
  case Nil
  then show ?case by simp
next
  case (Cons item items)
  obtain n d where item: "item = (n, d)" by (cases item)
  show ?case
  proof (cases "keywords_ok d")
    case True
    with Cons item show ?thesis by (simp add: Role_init_Inr)
  next
    case False
    with item show ?thesis by (simp add: Role_init_TypeError)
  qed
qed

text \<open>
  Otherwise, the keys being distinct, every role is appended: the comprehension maps
  the items in their order.
\<close>

lemma build_roles_distinct:
  "list_all (\<lambda>(n, d). keywords_ok d) items \<Longrightarrow> distinct (map fst acc @ map fst items) \<Longrightarrow>
   build_roles items acc = Inr (acc @ map (\<lambda>(n, d). (n, Role_fields n d)) items)"
proof (induction items arbitrary: acc)
  case Nil
  then show ?case by simp
next
  case (Cons item items)
  obtain n d where item: "item = (n, d)" by (cases item)
  from Cons.prems item have ok: "keywords_ok d" and oks: "list_all (\<lambda>(n, d). keywords_ok d) items"
    by simp_all
  from Cons.prems item have new: "n \<notin> set (map fst acc)" by auto
  from Cons.prems item have dist: "distinct (map fst (acc @ [(n, Role_fields n d)]) @ map fst items)"
    by auto
  have "build_roles (item # items) acc = build_roles items (acc @ [(n, Role_fields n d)])"
    using item ok new by (simp add: Role_init_Inr dict_set_new)
  also have "\<dots> = Inr ((acc @ [(n, Role_fields n d)]) @ map (\<lambda>(n, d). (n, Role_fields n d)) items)"
    using Cons.IH [OF oks dist] .
  finally show ?case using item by simp
qed

lemma build_roles_dict:
  assumes "distinct (map fst defs)" and "list_all (\<lambda>(n, d). keywords_ok d) defs"
  shows "build_roles defs [] = Inr (map (\<lambda>(n, d). (n, Role_fields n d)) defs)"
  using build_roles_distinct [of defs "[]"] assms by simp

lemma build_roles_Inr_dict:
  assumes "distinct (map fst defs)" and "build_roles defs [] = Inr rs"
  shows "rs = map (\<lambda>(n, d). (n, Role_fields n d)) defs"
proof -
  have "list_all (\<lambda>(n, d). keywords_ok d) defs"
    using assms(2) build_roles_TypeError [of defs "[]"] by auto
  with assms show ?thesis by (simp add: build_roles_dict)
qed

subsection \<open>The owner scan\<close>

lemma scan_owner_Some:
  "scan_owner rs (Some r0) =
     (if filter is_owner rs = [] then Inr (Some r0)
      else Inl (AssertionError ''Only one role be defined as owner.''))"
  by (induction rs) auto

lemma scan_owner_None:
  "scan_owner rs None =
     (case filter is_owner rs of
        [] \<Rightarrow> Inr None
      | [r] \<Rightarrow> Inr (Some r)
      | _ \<Rightarrow> Inl (AssertionError ''Only one role be defined as owner.''))"
  by (induction rs) (auto simp: scan_owner_Some split: list.splits)

lemma is_owner_Role_fields: "is_owner (Role_fields n d) \<longleftrightarrow> data_is_owner d = Some True"
  by (simp add: Role_fields_def split: option.splits)

lemma filter_is_owner_dict:
  "filter is_owner (dict_values (map (\<lambda>(n, d). (n, Role_fields n d)) defs)) =
   map (\<lambda>(n, d). Role_fields n d) (owner_entries defs)"
  by (induction defs) (auto simp: dict_values_def owner_entries_def is_owner_Role_fields)

lemma RoleRegistry_init_one_owner:
  assumes "distinct (map fst defs)" and "list_all (\<lambda>(n, d). keywords_ok d) defs"
    and "owner_entries defs = [(n0, d0)]"
  shows "RoleRegistry_init defs =
     Inr \<lparr> priv_roles = map (\<lambda>(n, d). (n, Role_fields n d)) defs,
           priv_owner = Some (Role_fields n0 d0) \<rparr>"
  using assms
  by (simp add: RoleRegistry_init_def build_roles_dict scan_owner_None filter_is_owner_dict)

subsection \<open>The loop of \<^verbatim>\<open>manager_roles\<close>\<close>

lemma manager_roles_loop_filter:
  "manager_roles_loop rs n acc = acc @ filter (\<lambda>r. can_manage r n) rs"
  by (induction rs arbitrary: acc) auto

text \<open>The equations that evaluate the model on a concrete mapping.\<close>

lemmas eval_defs = RoleRegistry_init_def Role_init_def keywords_ok_def data_keys_def
  Role_keywords_def Role_fields_def dict_values_def dict_lookup_def dict_contains_def
  manager_roles_def roles_def can_manage_def getitem_def contains_def owner_role_def
  owner_entries_def no_data_def

section \<open>The claims\<close>

subsection \<open>C1: the roles that can manage a role\<close>

text \<open>
  C1. For every registry and every role name, \<^verbatim>\<open>manager_roles\<close> returns the roles of
  \<^verbatim>\<open>roles\<close> for which \<^verbatim>\<open>can_manage\<close> holds of the name, in the order of
  \<^verbatim>\<open>roles\<close>: the loop is one scan of the roles, and it is a total function, so the
  call raises nothing.
\<close>

theorem manager_roles_filter:
  "manager_roles R n = filter (\<lambda>r. can_manage r n) (roles R)
   \<and> subseq (manager_roles R n) (roles R)"
  by (simp add: manager_roles_def manager_roles_loop_filter)

subsection \<open>C2: no owner, several owners\<close>

text \<open>
  C2. When the roles are built and none of them has \<^verbatim>\<open>is_owner\<close>, the construction
  of the registry raises the second assertion; when two or more of them have it, the
  construction raises the first one. In both cases the result is the exception and no
  registry.
\<close>

theorem RoleRegistry_init_owner_count:
  assumes "build_roles defs [] = Inr rs"
  shows "(filter is_owner (dict_values rs) = [] \<longrightarrow>
            RoleRegistry_init defs = Inl (AssertionError ''One role must be defined as owner.''))
       \<and> (2 \<le> length (filter is_owner (dict_values rs)) \<longrightarrow>
            RoleRegistry_init defs = Inl (AssertionError ''Only one role be defined as owner.''))"
  using assms
  by (auto simp: RoleRegistry_init_def scan_owner_None split: list.splits)

text \<open>The theorem at the definitions without an owner and at those with two.\<close>

theorem RoleRegistry_init_owner_count_witness:
  "build_roles no_owner [] = Inr [(''reader'', Role_fields ''reader'' no_data),
       (''curator'', Role_fields ''curator'' (no_data\<lparr>data_is_owner := Some False\<rparr>))]
   \<and> RoleRegistry_init no_owner = Inl (AssertionError ''One role must be defined as owner.'')
   \<and> RoleRegistry_init two_owners = Inl (AssertionError ''Only one role be defined as owner.'')"
proof -
  have a: "build_roles no_owner [] = Inr [(''reader'', Role_fields ''reader'' no_data),
       (''curator'', Role_fields ''curator'' (no_data\<lparr>data_is_owner := Some False\<rparr>))]"
    by (simp add: no_owner_def Role_init_def keywords_ok_def data_keys_def Role_keywords_def
        no_data_def)
  have b: "build_roles two_owners [] = Inr [(''reader'', Role_fields ''reader'' no_data),
       (''owner'', Role_fields ''owner'' (no_data\<lparr>data_is_owner := Some True\<rparr>)),
       (''admin'', Role_fields ''admin'' (no_data\<lparr>data_is_owner := Some True\<rparr>))]"
    by (simp add: two_owners_def Role_init_def keywords_ok_def data_keys_def Role_keywords_def
        no_data_def)
  show ?thesis
    using RoleRegistry_init_owner_count [OF a] RoleRegistry_init_owner_count [OF b] a
    by (simp add: dict_values_def Role_fields_def no_data_def)
qed

subsection \<open>C3: exactly one owner\<close>

text \<open>
  C3 as stated, for every mapping with exactly one \<^verbatim>\<open>is_owner\<close> entry, fails: the
  only entry of \<open>owner_can_manage\<close> is an owner, and its key \<^verbatim>\<open>can_manage\<close> is
  no parameter of \<^verbatim>\<open>Role\<close>, so the construction raises \<^verbatim>\<open>TypeError\<close>.
\<close>

theorem RoleRegistry_init_can_manage_key_counterexample:
  "distinct (map fst owner_can_manage)
   \<and> owner_entries owner_can_manage
       = [(''owner'', no_data\<lparr>data_is_owner := Some True,
                               data_other := [(''can_manage'', Names [''owner''])]\<rparr>)]
   \<and> RoleRegistry_init owner_can_manage = Inl TypeError"
  by (simp add: owner_can_manage_def eval_defs)

text \<open>
  C3, amended. For every mapping (its keys distinct, as those of a dict are) whose
  definitions have no key but \<^verbatim>\<open>title\<close>, \<^verbatim>\<open>description\<close>, \<^verbatim>\<open>can_manage_roles\<close>
  and \<^verbatim>\<open>is_owner\<close>, and in which exactly one entry has \<^verbatim>\<open>is_owner\<close> true, the
  construction returns a registry, and \<^verbatim>\<open>owner_role\<close> of it is the role built from
  that entry.
\<close>

theorem RoleRegistry_init_owner_role:
  assumes "distinct (map fst defs)"
    and "\<forall>(n, d) \<in> set defs.
           set (data_keys d) \<subseteq> {''title'', ''description'', ''can_manage_roles'', ''is_owner''}"
    and "owner_entries defs = [(n0, d0)]"
  shows "\<exists>R. RoleRegistry_init defs = Inr R
           \<and> Role_init n0 d0 = Inr (Role_fields n0 d0)
           \<and> owner_role R = Some (Role_fields n0 d0)"
proof -
  from assms(2) have oks: "list_all (\<lambda>(n, d). keywords_ok d) defs"
    by (auto simp: list_all_iff keywords_ok_subset Role_keywords_def)
  have "(n0, d0) \<in> set (owner_entries defs)"
    by (simp add: assms(3))
  then have "(n0, d0) \<in> set defs" by (simp add: owner_entries_def)
  with oks have "keywords_ok d0" by (auto simp: list_all_iff)
  then have "Role_init n0 d0 = Inr (Role_fields n0 d0)" by (rule Role_init_Inr)
  then show ?thesis
    using RoleRegistry_init_one_owner [OF assms(1) oks assms(3)]
    by (simp add: owner_role_def)
qed

text \<open>The theorem at the four roles: the owner role is the one named \<^verbatim>\<open>owner\<close>.\<close>

theorem RoleRegistry_init_owner_role_witness:
  "\<exists>R. RoleRegistry_init four_roles = Inr R
     \<and> owner_role R = Some \<lparr> name = ''owner'', title = [], description = [],
          can_manage_roles = [''reader'', ''curator'', ''manager'', ''owner''], is_owner = True \<rparr>"
proof -
  have 1: "distinct (map fst four_roles)" by (simp add: four_roles_def)
  have 2: "\<forall>(n, d) \<in> set four_roles.
      set (data_keys d) \<subseteq> {''title'', ''description'', ''can_manage_roles'', ''is_owner''}"
    by (auto simp: four_roles_def data_keys_def no_data_def)
  have 3: "owner_entries four_roles =
      [(''owner'', no_data\<lparr>data_can_manage_roles := Some [''reader'', ''curator'', ''manager'', ''owner''],
                           data_is_owner := Some True\<rparr>)]"
    by (simp add: four_roles_def owner_entries_def no_data_def)
  show ?thesis
    using RoleRegistry_init_owner_role [OF 1 2 3]
    by (auto simp: Role_fields_def no_data_def)
qed

subsection \<open>C4: membership and lookup\<close>

text \<open>
  C4. For every registry and every name, \<^verbatim>\<open>name in registry\<close> holds exactly when
  \<^verbatim>\<open>registry[name]\<close> returns a role; for a name that is absent the lookup raises
  \<^verbatim>\<open>KeyError\<close> of that name, and for a name that is present it returns a role stored
  under that name.
\<close>

theorem contains_iff_getitem:
  "(contains R n \<longleftrightarrow> (\<exists>r. getitem R n = Inr r))
   \<and> (\<not> contains R n \<longrightarrow> getitem R n = Inl (KeyError n))
   \<and> (contains R n \<longrightarrow> (\<exists>r. getitem R n = Inr r \<and> (n, r) \<in> set (priv_roles R)))"
proof -
  have "map_of (priv_roles R) n = None \<longleftrightarrow> n \<notin> fst ` set (priv_roles R)"
    by (rule map_of_eq_None_iff)
  moreover have "\<And>r. map_of (priv_roles R) n = Some r \<Longrightarrow> (n, r) \<in> set (priv_roles R)"
    by (rule map_of_SomeD)
  ultimately show ?thesis
    by (auto simp: contains_def getitem_def dict_contains_def dict_lookup_def split: option.splits)
qed

text \<open>The theorem at the registry of the four roles, for a name in it and one not in it.\<close>

theorem contains_iff_getitem_witness:
  "\<exists>R. RoleRegistry_init four_roles = Inr R
     \<and> contains R ''curator''
     \<and> getitem R ''curator'' = Inr \<lparr> name = ''curator'', title = [], description = [],
          can_manage_roles = [''reader''], is_owner = False \<rparr>
     \<and> \<not> contains R ''nonexistent''
     \<and> getitem R ''nonexistent'' = Inl (KeyError ''nonexistent'')"
proof -
  obtain R where R: "RoleRegistry_init four_roles = Inr R"
    by (simp add: four_roles_def eval_defs)
  have c: "contains R ''curator''" and n: "\<not> contains R ''nonexistent''"
    using R by (auto simp: four_roles_def eval_defs)
  have g: "getitem R ''curator'' = Inr \<lparr> name = ''curator'', title = [], description = [],
          can_manage_roles = [''reader''], is_owner = False \<rparr>"
    using R by (auto simp: four_roles_def eval_defs)
  show ?thesis
    using contains_iff_getitem [of R "''nonexistent''"] R c n g by auto
qed

subsection \<open>C5: what a role can manage\<close>

text \<open>
  C5. For every role and every name, \<^verbatim>\<open>can_manage\<close> is true exactly when the name is
  an element of the role's \<^verbatim>\<open>can_manage_roles\<close>. It is a total function to the
  truth values that reads nothing but the role: it raises nothing, changes nothing, and
  a name that no registry knows gives false unless the list has it.
\<close>

theorem can_manage_iff_member:
  "can_manage r n \<longleftrightarrow> n \<in> set (can_manage_roles r)"
  by (simp add: can_manage_def list_contains_set)

subsection \<open>C6: equality and hash of roles\<close>

text \<open>
  C6 as stated, two roles of one name are equal, fails: \<open>reader_a\<close> and \<open>reader_b\<close>
  have the same name and different titles, and the equality that the dataclass
  generates compares all fields.
\<close>

theorem Role_eq_same_name_counterexample:
  "name reader_a = name reader_b \<and> \<not> Role_eq reader_a reader_b"
  by (simp add: reader_a_def reader_b_def Role_eq_def)

text \<open>
  C6, amended. Two roles of the same name have the same hash, whatever their other
  fields are; they are equal exactly when all five fields agree.
\<close>

theorem Role_hash_name_Role_eq_fields:
  "(name a = name b \<longrightarrow> Role_hash str_hash a = Role_hash str_hash b)
   \<and> (Role_eq a b \<longleftrightarrow>
        name a = name b \<and> title a = title b \<and> description a = description b
        \<and> can_manage_roles a = can_manage_roles b \<and> is_owner a = is_owner b)"
  by (auto simp: Role_hash_def Role_eq_def)

text \<open>The theorem at the two readers, the length of a string for its hash.\<close>

theorem Role_hash_name_Role_eq_fields_witness:
  "name reader_a = name reader_b
   \<and> Role_hash (\<lambda>s. int (length s)) reader_a = Role_hash (\<lambda>s. int (length s)) reader_b
   \<and> Role_eq reader_a reader_a \<and> \<not> Role_eq reader_a reader_b"
  using Role_hash_name_Role_eq_fields [of reader_a reader_b "\<lambda>s. int (length s)"]
    Role_hash_name_Role_eq_fields [of reader_a reader_a "\<lambda>s. int (length s)"]
  by (simp add: reader_a_def reader_b_def)

subsection \<open>C7: the order of the roles\<close>

text \<open>
  C7. For every mapping (its keys distinct, as those of a dict are) from which the
  construction returns a registry, the names of \<^verbatim>\<open>roles\<close> are the keys of the mapping
  in their order, and \<^verbatim>\<open>roles\<close> is the list of the roles built from the entries in
  that order. \<^verbatim>\<open>roles\<close> is a function of the registry, so every iteration gives the
  same list.
\<close>

theorem roles_insertion_order:
  assumes "distinct (map fst defs)" and "RoleRegistry_init defs = Inr R"
  shows "map name (roles R) = map fst defs
       \<and> roles R = map (\<lambda>(n, d). Role_fields n d) defs"
proof -
  from assms(2) obtain rs where rs: "build_roles defs [] = Inr rs" and R: "priv_roles R = rs"
    by (auto simp: RoleRegistry_init_def split: sum.splits option.splits)
  from build_roles_Inr_dict [OF assms(1) rs] R
  have "roles R = map (\<lambda>(n, d). Role_fields n d) defs"
    by (simp add: roles_def dict_values_def case_prod_unfold)
  then show ?thesis by (simp add: Role_fields_def case_prod_unfold)
qed

text \<open>The theorem at the four roles.\<close>

theorem roles_insertion_order_witness:
  "\<exists>R. RoleRegistry_init four_roles = Inr R
     \<and> map name (roles R) = [''reader'', ''curator'', ''manager'', ''owner'']"
proof -
  obtain R where R: "RoleRegistry_init four_roles = Inr R"
    by (simp add: four_roles_def eval_defs)
  have d: "distinct (map fst four_roles)" by (simp add: four_roles_def)
  show ?thesis
    using roles_insertion_order [OF d R] R by (simp add: four_roles_def Role_fields_def)
qed

subsection \<open>C8: the four roles\<close>

text \<open>
  C8 as stated, with the lists under the key \<^verbatim>\<open>can_manage\<close>, fails: the construction
  raises \<^verbatim>\<open>TypeError\<close> at the curator, and there is no registry to query.
\<close>

theorem four_roles_can_manage_key_counterexample:
  "RoleRegistry_init four_roles_can_manage = Inl TypeError"
  by (simp add: four_roles_can_manage_def eval_defs)

text \<open>
  C8, amended. With the lists under the key \<^verbatim>\<open>can_manage_roles\<close>, the construction
  returns a registry whose owner role is named \<^verbatim>\<open>owner\<close>; the roles that can manage
  \<^verbatim>\<open>reader\<close> are curator, manager and owner in this order; the owner alone can manage
  \<^verbatim>\<open>owner\<close>, and alone \<^verbatim>\<open>manager\<close>; the lookup of \<^verbatim>\<open>nonexistent\<close> raises
  \<^verbatim>\<open>KeyError\<close>.
\<close>

theorem four_roles_scenario:
  "\<exists>R. RoleRegistry_init four_roles = Inr R
     \<and> map_option name (owner_role R) = Some ''owner''
     \<and> map name (manager_roles R ''reader'') = [''curator'', ''manager'', ''owner'']
     \<and> map name (manager_roles R ''owner'') = [''owner'']
     \<and> map name (manager_roles R ''manager'') = [''owner'']
     \<and> getitem R ''nonexistent'' = Inl (KeyError ''nonexistent'')"
  by (simp add: four_roles_def eval_defs)

subsection \<open>C9: names that no role has\<close>

text \<open>
  C9 as stated, for every mapping with exactly one \<^verbatim>\<open>is_owner\<close> entry, fails: in
  \<open>owner_ghost_can_manage\<close> the owner is the one such entry and manages a role that
  is not defined, and the construction raises \<^verbatim>\<open>TypeError\<close> for the key
  \<^verbatim>\<open>can_manage\<close> of the other definition.
\<close>

theorem owner_ghost_can_manage_counterexample:
  "distinct (map fst owner_ghost_can_manage)
   \<and> length (owner_entries owner_ghost_can_manage) = 1
   \<and> RoleRegistry_init owner_ghost_can_manage = Inl TypeError"
  by (simp add: owner_ghost_can_manage_def eval_defs)

text \<open>
  C9, amended. The construction does not compare the names in \<^verbatim>\<open>can_manage_roles\<close>
  with the keys of the mapping: for every mapping (its keys distinct) whose definitions
  have no key but \<^verbatim>\<open>title\<close>, \<^verbatim>\<open>description\<close>, \<^verbatim>\<open>can_manage_roles\<close> and
  \<^verbatim>\<open>is_owner\<close>, and with exactly one \<^verbatim>\<open>is_owner\<close> entry, it returns a registry,
  whatever names the lists hold; and every name in the list of an entry, a key of the
  mapping or not, is kept: the role stored under the entry's key can manage it.
\<close>

theorem RoleRegistry_init_keeps_unknown_names:
  assumes "distinct (map fst defs)"
    and "\<forall>(n, d) \<in> set defs.
           set (data_keys d) \<subseteq> {''title'', ''description'', ''can_manage_roles'', ''is_owner''}"
    and "length (owner_entries defs) = 1"
  shows "\<exists>R. RoleRegistry_init defs = Inr R
         \<and> (\<forall>(n, d) \<in> set defs. \<forall>l m. data_can_manage_roles d = Some l \<and> m \<in> set l \<longrightarrow>
               (\<exists>r. getitem R n = Inr r \<and> can_manage r m))"
proof -
  from assms(2) have oks: "list_all (\<lambda>(n, d). keywords_ok d) defs"
    by (auto simp: list_all_iff keywords_ok_subset Role_keywords_def)
  from assms(3) obtain e where "owner_entries defs = [e]"
    by (auto simp: length_Suc_conv)
  then obtain n0 d0 where one: "owner_entries defs = [(n0, d0)]"
    by (cases e) auto
  let ?R = "\<lparr> priv_roles = map (\<lambda>(n, d). (n, Role_fields n d)) defs,
              priv_owner = Some (Role_fields n0 d0) \<rparr>"
  have init: "RoleRegistry_init defs = Inr ?R"
    by (rule RoleRegistry_init_one_owner [OF assms(1) oks one])
  have "\<exists>r. getitem ?R n = Inr r \<and> can_manage r m"
    if "(n, d) \<in> set defs" and "data_can_manage_roles d = Some l" and "m \<in> set l" for n d l m
  proof -
    have "distinct (map fst (map (\<lambda>(n, d). (n, Role_fields n d)) defs))"
      using assms(1) by (simp add: case_prod_unfold comp_def)
    moreover have "(n, Role_fields n d) \<in> set (map (\<lambda>(n, d). (n, Role_fields n d)) defs)"
      using that(1) by force
    ultimately have "map_of (map (\<lambda>(n, d). (n, Role_fields n d)) defs) n = Some (Role_fields n d)"
      by (rule map_of_is_SomeI)
    then have "getitem ?R n = Inr (Role_fields n d)"
      by (simp add: getitem_def dict_lookup_def)
    moreover have "can_manage (Role_fields n d) m"
      using that(2,3) by (simp add: can_manage_def list_contains_set Role_fields_def)
    ultimately show ?thesis by blast
  qed
  with init show ?thesis by blast
qed

text \<open>
  The theorem at the owner that manages \<^verbatim>\<open>ghost\<close>: the registry has no such role,
  and the owner can manage it.
\<close>

theorem RoleRegistry_init_keeps_unknown_names_witness:
  "\<exists>R r. RoleRegistry_init owner_ghost = Inr R
     \<and> \<not> contains R ''ghost''
     \<and> getitem R ''owner'' = Inr r \<and> can_manage r ''ghost''"
proof -
  have 1: "distinct (map fst owner_ghost)" by (simp add: owner_ghost_def)
  have 2: "\<forall>(n, d) \<in> set owner_ghost.
      set (data_keys d) \<subseteq> {''title'', ''description'', ''can_manage_roles'', ''is_owner''}"
    by (auto simp: owner_ghost_def data_keys_def no_data_def)
  have 3: "length (owner_entries owner_ghost) = 1"
    by (simp add: owner_ghost_def owner_entries_def no_data_def)
  from RoleRegistry_init_keeps_unknown_names [OF 1 2 3]
  obtain R where R: "RoleRegistry_init owner_ghost = Inr R"
    and all: "\<forall>(n, d) \<in> set owner_ghost. \<forall>l m. data_can_manage_roles d = Some l \<and> m \<in> set l \<longrightarrow>
               (\<exists>r. getitem R n = Inr r \<and> can_manage r m)"
    by blast
  from all have "\<exists>r. getitem R ''owner'' = Inr r \<and> can_manage r ''ghost''"
    by (simp add: owner_ghost_def no_data_def)
  moreover have "\<not> contains R ''ghost''"
    using R by (auto simp: owner_ghost_def eval_defs)
  ultimately show ?thesis using R by blast
qed

subsection \<open>C10: keys that are no fields\<close>

text \<open>
  C10. The keys of a definition become the keyword arguments of \<^verbatim>\<open>Role\<close> as they
  are: when some entry of the mapping has a key other than \<^verbatim>\<open>title\<close>,
  \<^verbatim>\<open>description\<close>, \<^verbatim>\<open>can_manage_roles\<close> and \<^verbatim>\<open>is_owner\<close>, building its role
  raises \<^verbatim>\<open>TypeError\<close>, and so does the construction of the registry, which returns
  no registry. The key \<^verbatim>\<open>can_manage\<close> is such a key.
\<close>

theorem RoleRegistry_init_unexpected_key:
  assumes "(n, d) \<in> set defs" and "k \<in> set (data_keys d)"
    and "k \<notin> {''title'', ''description'', ''can_manage_roles'', ''is_owner''}"
  shows "Role_init n d = Inl TypeError \<and> RoleRegistry_init defs = Inl TypeError"
proof -
  from assms(2,3) have bad: "\<not> keywords_ok d"
    by (auto simp: keywords_ok_subset Role_keywords_def)
  with assms(1) have "\<not> list_all (\<lambda>(n, d). keywords_ok d) defs"
    by (auto simp: list_all_iff)
  then have "build_roles defs [] = Inl TypeError" by (rule build_roles_TypeError)
  with bad show ?thesis by (simp add: RoleRegistry_init_def Role_init_TypeError)
qed

text \<open>The theorem at the curator whose list is under the key \<^verbatim>\<open>can_manage\<close>.\<close>

theorem RoleRegistry_init_unexpected_key_witness:
  "Role_init ''curator'' (no_data\<lparr>data_other := [(''can_manage'', Names [''reader''])]\<rparr>) = Inl TypeError
   \<and> RoleRegistry_init four_roles_can_manage = Inl TypeError"
proof -
  have 1: "(''curator'', no_data\<lparr>data_other := [(''can_manage'', Names [''reader''])]\<rparr>) \<in> set four_roles_can_manage"
    by (simp add: four_roles_can_manage_def)
  have 2: "''can_manage'' \<in> set (data_keys (no_data\<lparr>data_other := [(''can_manage'', Names [''reader''])]\<rparr>))"
    by (simp add: data_keys_def no_data_def)
  have 3: "''can_manage'' \<notin> {''title'', ''description'', ''can_manage_roles'', ''is_owner''}"
    by simp
  show ?thesis using RoleRegistry_init_unexpected_key [OF 1 2 3] .
qed

end
